theory Spec2Isabelle
  imports Complex_Main "HOL-Library.Sublist"
begin

section \<open>Python strings\<close>

text \<open>
  Response texts, drafts and memory fields are Python \<open>str\<close> values. They are modelled
  as HOL strings: a character of the text is a \<open>char\<close>. The case conversions, the
  white space test and the word-character test below are Python's on the ASCII range;
  the Unicode tables outside ASCII are not modelled. The bullet U+2022, which the 8-bit
  \<open>char\<close> cannot hold, stands as its three UTF-8 bytes.
\<close>

definition newline :: char where
  "newline = CHR 0x0A"

definition bullet :: string where
  "bullet = [CHR 0xE2, CHR 0x80, CHR 0xA2]"

text \<open>\<open>s.split(c)\<close> for a one-character separator: the pieces between the separators,
  never the empty list. The scan keeps the piece read so far.\<close>

fun split_acc :: "char \<Rightarrow> string \<Rightarrow> string \<Rightarrow> string list" where
  "split_acc c piece [] = [piece]"
| "split_acc c piece (x # xs) =
     (if x = c then piece # split_acc c [] xs else split_acc c (piece @ [x]) xs)"

definition split_on :: "char \<Rightarrow> string \<Rightarrow> string list" where
  "split_on c s = split_acc c [] s"

definition split_lines :: "string \<Rightarrow> string list" where
  "split_lines s = split_on newline s"

text \<open>\<open>sep.join(xs)\<close>\<close>

fun join :: "string \<Rightarrow> string list \<Rightarrow> string" where
  "join sep [] = []"
| "join sep [x] = x"
| "join sep (x # y # ys) = x @ sep @ join sep (y # ys)"

text \<open>\<open>c.isspace()\<close> on ASCII: tab, line feed, vertical tab, form feed, carriage return,
  the separators 0x1C..0x1F and the space.\<close>

definition is_space :: "char \<Rightarrow> bool" where
  "is_space c = (let n = (of_char c :: nat) in (9 \<le> n \<and> n \<le> 13) \<or> (28 \<le> n \<and> n \<le> 32))"

text \<open>\<open>s.strip()\<close>\<close>

definition strip :: "string \<Rightarrow> string" where
  "strip s = rev (dropWhile is_space (rev (dropWhile is_space s)))"

definition upper_char :: "char \<Rightarrow> char" where
  "upper_char c =
     (let n = (of_char c :: nat) in if 97 \<le> n \<and> n \<le> 122 then char_of (n - 32) else c)"

definition lower_char :: "char \<Rightarrow> char" where
  "lower_char c =
     (let n = (of_char c :: nat) in if 65 \<le> n \<and> n \<le> 90 then char_of (n + 32) else c)"

text \<open>\<open>s.upper()\<close> and \<open>s.lower()\<close>\<close>

definition upper :: "string \<Rightarrow> string" where
  "upper s = map upper_char s"

definition lower :: "string \<Rightarrow> string" where
  "lower s = map lower_char s"

text \<open>\<open>p in s\<close> for strings: \<open>p\<close> occurs in \<open>s\<close> as a contiguous piece.\<close>

fun str_in :: "string \<Rightarrow> string \<Rightarrow> bool" where
  "str_in p [] = (p = [])"
| "str_in p (c # cs) = (prefix p (c # cs) \<or> str_in p cs)"

text \<open>\<open>s.startswith(p)\<close>, and \<open>s.startswith((p1, ..., pn))\<close> for a tuple of prefixes.\<close>

definition startswith :: "string \<Rightarrow> string \<Rightarrow> bool" where
  "startswith s p = prefix p s"

definition startswith_any :: "string \<Rightarrow> string list \<Rightarrow> bool" where
  "startswith_any s ps = list_ex (startswith s) ps"

text \<open>\<open>any(k in s for k in ks)\<close>\<close>

definition any_in :: "string list \<Rightarrow> string \<Rightarrow> bool" where
  "any_in ks s = list_ex (\<lambda>k. str_in k s) ks"

text \<open>Python's \<open>len(s.split())\<close>: the number of maximal runs of characters that are
  not white space. The flag says whether the scan is inside such a run.\<close>

fun count_words :: "bool \<Rightarrow> string \<Rightarrow> nat" where
  "count_words inside [] = 0"
| "count_words inside (c # cs) =
     (if is_space c then count_words False cs
      else (if inside then 0 else 1) + count_words True cs)"

definition word_count :: "string \<Rightarrow> nat" where
  "word_count s = count_words False s"

section \<open>Draft polisher: quality score\<close>

text \<open>\<open>DraftPolisherAgent._assess_quality_score\<close>. The floats 9.0, 7.5, 6.0 and 7.0
  are exact binary fractions; they are modelled as reals.\<close>

definition assess_quality_score :: "string \<Rightarrow> string \<Rightarrow> real" where
  "assess_quality_score original_text polished_response =
     (if str_in ''excellent'' (lower polished_response)
         \<or> str_in ''high quality'' (lower polished_response) then 9
      else if str_in ''good'' (lower polished_response)
         \<or> str_in ''well'' (lower polished_response) then 15 / 2
      else if str_in ''improvement'' (lower polished_response) then 6
      else 7)"

section \<open>Draft polisher: list and text extractors\<close>

text \<open>The test both list extractors apply to a line of an open section:
  \<open>line.strip().startswith(('-', '*', bullet)) or
   any(num in line[:3] for num in ['1.', '2.', '3.'])\<close>.\<close>

definition is_list_item :: "string \<Rightarrow> bool" where
  "is_list_item line =
     (startswith_any (strip line) [''-'', ''*'', bullet]
      \<or> any_in [''1.'', ''2.'', ''3.''] (take 3 line))"

text \<open>\<open>DraftPolisherAgent._extract_improvements\<close>: the loop body as a step on the pair
  (\<open>in_improvements_section\<close>, \<open>improvements\<close>), the loop as a left fold over the lines.\<close>

definition improvements_heading :: "string \<Rightarrow> bool" where
  "improvements_heading line =
     (str_in ''IMPROVEMENTS'' (upper line) \<or> str_in ''CORRECTIONS'' (upper line))"

definition improvements_end :: "string \<Rightarrow> bool" where
  "improvements_end line =
     (strip line \<noteq> [] \<and> startswith_any (strip line) [''POLISHED'', ''SUGGESTIONS'', ''QUALITY''])"

fun improvements_step :: "bool \<times> string list \<Rightarrow> string \<Rightarrow> bool \<times> string list" where
  "improvements_step (in_section, improvements) line =
     (if improvements_heading line then (True, improvements)
      else if improvements_end line then (False, improvements)
      else if in_section \<and> strip line \<noteq> [] then
        (if is_list_item line then (in_section, improvements @ [strip line])
         else (in_section, improvements))
      else (in_section, improvements))"

definition extract_improvements :: "string \<Rightarrow> string list" where
  "extract_improvements response =
     take 10 (snd (foldl improvements_step (False, []) (split_lines response)))"

text \<open>\<open>DraftPolisherAgent._extract_suggestions\<close>\<close>

definition suggestions_heading :: "string \<Rightarrow> bool" where
  "suggestions_heading line = str_in ''SUGGESTIONS'' (upper line)"

definition suggestions_end :: "string \<Rightarrow> bool" where
  "suggestions_end line = (strip line \<noteq> [] \<and> startswith (strip line) ''QUALITY'')"

fun suggestions_step :: "bool \<times> string list \<Rightarrow> string \<Rightarrow> bool \<times> string list" where
  "suggestions_step (in_section, suggestions) line =
     (if suggestions_heading line then (True, suggestions)
      else if suggestions_end line then (False, suggestions)
      else if in_section \<and> strip line \<noteq> [] then
        (if is_list_item line then (in_section, suggestions @ [strip line])
         else (in_section, suggestions))
      else (in_section, suggestions))"

definition extract_suggestions :: "string \<Rightarrow> string list" where
  "extract_suggestions response =
     take 5 (snd (foldl suggestions_step (False, []) (split_lines response)))"

text \<open>\<open>DraftPolisherAgent._extract_polished_text\<close>\<close>

definition text_markers :: "string list" where
  "text_markers =
     [''POLISHED TEXT'', ''CORRECTED TEXT'', ''RESTRUCTURED TEXT'', ''CLARIFIED TEXT'',
      ''IMPROVED TEXT'']"

definition closing_markers :: "string list" where
  "closing_markers = [''IMPROVEMENTS'', ''CORRECTIONS'', ''SUGGESTIONS'', ''QUALITY'']"

fun polished_step :: "bool \<times> string list \<Rightarrow> string \<Rightarrow> bool \<times> string list" where
  "polished_step (in_section, polished_lines) line =
     (if any_in text_markers (upper line) then (True, polished_lines)
      else if strip line \<noteq> [] \<and> any_in closing_markers (upper line) then (False, polished_lines)
      else if in_section \<and> strip line \<noteq> [] then (in_section, polished_lines @ [line])
      else (in_section, polished_lines))"

definition extract_polished_text :: "string \<Rightarrow> string \<Rightarrow> string" where
  "extract_polished_text response original_text =
     (let polished_text =
            strip (join [newline] (snd (foldl polished_step (False, []) (split_lines response))))
      in if polished_text \<noteq> [] then polished_text else original_text)"

section \<open>Hypothesis validator: score extraction\<close>

text \<open>The regular expression \<open>\b([1-9]|10)\b\<close>. A word character is a letter, a digit or
  the underscore; \<open>\b\<close> holds between two positions exactly one of which is a word
  character, the ends of the line counting as none.\<close>

definition is_word_char :: "char \<Rightarrow> bool" where
  "is_word_char c =
     (let n = (of_char c :: nat)
      in (48 \<le> n \<and> n \<le> 57) \<or> (65 \<le> n \<and> n \<le> 90) \<or> (97 \<le> n \<and> n \<le> 122) \<or> n = 95)"

definition is_word_opt :: "char option \<Rightarrow> bool" where
  "is_word_opt x = (case x of None \<Rightarrow> False | Some c \<Rightarrow> is_word_char c)"

definition word_boundary :: "char option \<Rightarrow> char option \<Rightarrow> bool" where
  "word_boundary prev nxt = (is_word_opt prev \<noteq> is_word_opt nxt)"

definition digit_1_9 :: "char \<Rightarrow> bool" where
  "digit_1_9 c = (c \<in> set ''123456789'')"

definition next_char :: "string \<Rightarrow> char option" where
  "next_char s = (case s of [] \<Rightarrow> None | c # _ \<Rightarrow> Some c)"

text \<open>\<open>re.findall(r'\b([1-9]|10)\b', line)\<close>: the matches from left to right, without
  overlap; at each position the alternative \<open>[1-9]\<close> is tried before \<open>10\<close>. The first
  argument is the character before the position scanned.\<close>

fun findall_scores :: "char option \<Rightarrow> string \<Rightarrow> string list" where
  "findall_scores prev [] = []"
| "findall_scores prev [c] =
     (if word_boundary prev (Some c) \<and> digit_1_9 c \<and> word_boundary (Some c) None
      then [[c]] else [])"
| "findall_scores prev (c # d # cs) =
     (if word_boundary prev (Some c) \<and> digit_1_9 c \<and> word_boundary (Some c) (Some d)
      then [c] # findall_scores (Some c) (d # cs)
      else if word_boundary prev (Some c) \<and> c = CHR ''1'' \<and> d = CHR ''0''
              \<and> word_boundary (Some d) (next_char cs)
      then [c, d] # findall_scores (Some d) cs
      else findall_scores (Some c) (d # cs))"

text \<open>\<open>int(s)\<close> on a string of decimal digits.\<close>

definition int_of_digits :: "string \<Rightarrow> int" where
  "int_of_digits s = foldl (\<lambda>a c. 10 * a + (of_char c - 48)) 0 s"

definition criteria :: "string list" where
  "criteria =
     [''CLARITY'', ''TESTABILITY'', ''SPECIFICITY'', ''RELEVANCE'', ''ORIGINALITY'',
      ''FEASIBILITY'', ''THEORETICAL'']"

text \<open>\<open>HypothesisValidatorAgent._calculate_overall_score\<close>. Python divides the integer
  sum by the integer count in floating point, which gives the double nearest to the
  quotient; the model keeps the quotient itself, a real.\<close>

definition score_step :: "int list \<Rightarrow> string \<Rightarrow> int list" where
  "score_step scores line =
     (if any_in criteria (upper line) then
        (case findall_scores None line of
           [] \<Rightarrow> scores
         | n # _ \<Rightarrow> scores @ [int_of_digits n])
      else scores)"

definition calculate_overall_score :: "string \<Rightarrow> real" where
  "calculate_overall_score analysis =
     (let scores = foldl score_step [] (split_lines analysis)
      in if scores \<noteq> [] then real_of_int (sum_list scores) / real (length scores) else 5)"

text \<open>\<open>HypothesisValidatorAgent._get_assessment_level\<close>\<close>

definition get_assessment_level :: "real \<Rightarrow> string" where
  "get_assessment_level score =
     (if score \<ge> 8 then ''Strong'' else if score \<ge> 6 then ''Moderate'' else ''Weak'')"

section \<open>Recommendation and alternative-hypothesis parsing\<close>

text \<open>The comprehension shared by \<open>LiteratureReviewAgent._generate_recommendations\<close> and
  \<open>HypothesisValidatorAgent._generate_improvement_recommendations\<close>:
  \<open>[line.strip() for line in response.split('\n')
     if line.strip() and any(num in line for num in ['1.', '2.', '3.', '4.', '5.'])][:5]\<close>.\<close>

definition parse_recommendations :: "string \<Rightarrow> string list" where
  "parse_recommendations response =
     take 5 (map strip
       (filter (\<lambda>line. strip line \<noteq> [] \<and> any_in [''1.'', ''2.'', ''3.'', ''4.'', ''5.''] line)
          (split_lines response)))"



section \<open>Session memory and its backing file\<close>

text \<open>The memory document of \<open>BaseAgent.load_memory\<close>, with the entries the three agents
  append to it. The field \<open>notes\<close> is written \<open>notes'\<close>, the plain name being a keyword.\<close>

record review_entry =
  rv_timestamp :: string
  rv_review :: string
  rv_sources_analyzed :: nat

record validation_result =
  detailed_analysis :: string
  overall_score :: real
  assessment :: string
  vr_timestamp :: string

record hypothesis_entry =
  he_timestamp :: string
  he_hypothesis :: string
  he_validation :: validation_result
  he_research_question :: string

record draft_entry =
  de_timestamp :: string
  original_draft :: string
  polished_draft :: string
  de_polish_type :: string
  improvements_made :: "string list"
  word_count_original :: nat
  word_count_polished :: nat

record progress_flags =
  literature_review_completed :: bool
  hypothesis_validated :: bool
  draft_polished :: bool

record memory =
  research_question :: string
  citations :: "string list"
  notes' :: "string list"
  literature_reviews :: "review_entry list"
  hypotheses :: "hypothesis_entry list"
  drafts :: "draft_entry list"
  progress :: progress_flags

text \<open>What \<open>open(self.memory_path)\<close> and \<open>json.load\<close> can meet: no file
  (\<open>FileNotFoundError\<close>), a text that is not JSON (\<open>JSONDecodeError\<close>), a file that
  cannot be opened for another reason (an \<open>OSError\<close> the \<open>except\<close> clause does not
  name), or the JSON text of a memory document.\<close>

datatype store = Absent | Malformed | Unreadable | Stored memory

datatype error = ReadError | WriteError

definition default_memory :: memory where
  "default_memory =
     \<lparr>research_question = [], citations = [], notes' = [], literature_reviews = [],
      hypotheses = [], drafts = [],
      progress = \<lparr>literature_review_completed = False, hypothesis_validated = False,
                  draft_polished = False\<rparr>\<rparr>"

text \<open>\<open>BaseAgent.load_memory\<close>: the two exceptions it catches give the default document;
  any other propagates.\<close>

fun load_memory :: "store \<Rightarrow> error + memory" where
  "load_memory Absent = Inr default_memory"
| "load_memory Malformed = Inr default_memory"
| "load_memory Unreadable = Inl ReadError"
| "load_memory (Stored m) = Inr m"

text \<open>\<open>BaseAgent.save_memory\<close>: the write succeeds or raises; the flag says which.\<close>

definition save_memory :: "bool \<Rightarrow> memory \<Rightarrow> error + store" where
  "save_memory disk_ok m = (if disk_ok then Inr (Stored m) else Inl WriteError)"

section \<open>The generation gateway\<close>

text \<open>A prompt is kept as the builder that wrote it and the values it interpolates; the
  fixed wording of the prompt is left out. The model call answers a prompt with a text or
  raises an exception, whose \<open>str(e)\<close> is kept.\<close>

datatype prompt =
    LiteratureReviewPrompt string "string list" "string list"
  | RecommendationsPrompt string
  | ValidateHypothesisPrompt string string string
  | ImprovementPrompt string string real
  | AlternativeHypothesesPrompt string string string
  | ComprehensivePolishPrompt string string string
  | GrammarPolishPrompt string
  | StructurePolishPrompt string string
  | ClarityPolishPrompt string string
  | CitationsPolishPrompt string string

datatype gen_outcome = Text string | Raised string

text \<open>The surroundings of one invocation: the model, the clock
  (\<open>datetime.datetime.now().isoformat()\<close>, by the number of the reading) and whether the
  disk takes the write.\<close>

record env =
  llm :: "prompt \<Rightarrow> gen_outcome"
  clock :: "nat \<Rightarrow> string"
  disk_ok :: bool

text \<open>\<open>BaseAgent.generate_response\<close>\<close>

definition generate_response :: "env \<Rightarrow> prompt \<Rightarrow> string" where
  "generate_response e p =
     (case llm e p of
        Text t \<Rightarrow> t
      | Raised msg \<Rightarrow> ''Error generating response: '' @ msg)"

section \<open>Literature review agent\<close>

record lit_input =
  li_research_question :: string
  li_citations :: "string list"
  li_notes :: "string list"

record lit_result =
  lr_status :: string
  lr_agent :: string
  lr_review :: string
  lr_sources_analyzed :: nat
  lr_recommendations :: "string list"

definition generate_literature_review :: "env \<Rightarrow> string \<Rightarrow> string list \<Rightarrow> string list \<Rightarrow> string" where
  "generate_literature_review e rq cs ns = generate_response e (LiteratureReviewPrompt rq cs ns)"

definition generate_recommendations :: "env \<Rightarrow> string \<Rightarrow> string list \<Rightarrow> string list" where
  "generate_recommendations e rq cs = parse_recommendations (generate_response e (RecommendationsPrompt rq))"

text \<open>\<open>LiteratureReviewAgent.process\<close>, on the backing file.\<close>

definition lit_update :: "env \<Rightarrow> lit_input \<Rightarrow> memory \<Rightarrow> memory" where
  "lit_update e inp m =
     (let m1 = (if li_research_question inp \<noteq> []
                then m\<lparr>research_question := li_research_question inp\<rparr> else m);
          m2 = (if li_citations inp \<noteq> []
                then m1\<lparr>citations := citations m1 @ li_citations inp\<rparr> else m1);
          m3 = (if li_notes inp \<noteq> []
                then m2\<lparr>notes' := notes' m2 @ li_notes inp\<rparr> else m2);
          review = generate_literature_review e (li_research_question inp) (li_citations inp)
                     (li_notes inp);
          review_entry = \<lparr>rv_timestamp = clock e 0, rv_review = review,
                          rv_sources_analyzed = length (li_citations inp)\<rparr>;
          m4 = m3\<lparr>literature_reviews := literature_reviews m3 @ [review_entry]\<rparr>
      in m4\<lparr>progress := (progress m4)\<lparr>literature_review_completed := True\<rparr>\<rparr>)"

definition lit_process :: "env \<Rightarrow> lit_input \<Rightarrow> store \<Rightarrow> error + (store \<times> lit_result)" where
  "lit_process e inp st =
     (case load_memory st of
        Inl err \<Rightarrow> Inl err
      | Inr m \<Rightarrow>
          (case save_memory (disk_ok e) (lit_update e inp m) of
             Inl err \<Rightarrow> Inl err
           | Inr st' \<Rightarrow>
               Inr (st',
                 \<lparr>lr_status = ''success'', lr_agent = ''Literature Review Agent'',
                  lr_review = generate_literature_review e (li_research_question inp)
                                (li_citations inp) (li_notes inp),
                  lr_sources_analyzed = length (li_citations inp),
                  lr_recommendations = generate_recommendations e (li_research_question inp)
                                         (li_citations inp)\<rparr>)))"

text \<open>Consecutive literature-review invocations, each with its own surroundings and
  input; the first failure ends the run, as the exception would.\<close>

fun lit_run :: "(env \<times> lit_input) list \<Rightarrow> store \<Rightarrow> error + store" where
  "lit_run [] st = Inr st"
| "lit_run ((e, inp) # calls) st =
     (case lit_process e inp st of
        Inl err \<Rightarrow> Inl err
      | Inr (st', r) \<Rightarrow> lit_run calls st')"

section \<open>Hypothesis validator agent\<close>

record hyp_input =
  hi_hypothesis :: string
  hi_research_question :: string

record hyp_result =
  hr_status :: string
  hr_agent :: string
  hr_hypothesis :: string
  hr_validation :: validation_result
  hr_recommendations :: "string list"

text \<open>The context both \<open>_validate_hypothesis\<close> and \<open>generate_alternative_hypotheses\<close>
  take from the latest stored review, after their own label.\<close>

definition literature_context :: "string \<Rightarrow> memory \<Rightarrow> string" where
  "literature_context label m =
     (if literature_reviews m \<noteq> []
      then label @ take 500 (rv_review (last (literature_reviews m))) @ ''...''
      else [])"

text \<open>\<open>HypothesisValidatorAgent._validate_hypothesis\<close>\<close>

definition validate_hypothesis :: "env \<Rightarrow> string \<Rightarrow> string \<Rightarrow> memory \<Rightarrow> validation_result" where
  "validate_hypothesis e hypothesis rq m =
     (let response = generate_response e
            (ValidateHypothesisPrompt rq hypothesis
               (literature_context ''Based on literature review: '' m));
          score = calculate_overall_score response
      in \<lparr>detailed_analysis = response, overall_score = score,
          assessment = get_assessment_level score, vr_timestamp = clock e 0\<rparr>)"

definition generate_improvement_recommendations :: "env \<Rightarrow> string \<Rightarrow> validation_result \<Rightarrow> string list" where
  "generate_improvement_recommendations e hypothesis v =
     parse_recommendations
       (generate_response e (ImprovementPrompt hypothesis (assessment v) (overall_score v)))"

text \<open>\<open>HypothesisValidatorAgent.process\<close>\<close>

definition hyp_question :: "hyp_input \<Rightarrow> memory \<Rightarrow> string" where
  "hyp_question inp m =
     (if hi_research_question inp = [] then research_question m else hi_research_question inp)"

definition hyp_update :: "env \<Rightarrow> hyp_input \<Rightarrow> memory \<Rightarrow> memory" where
  "hyp_update e inp m =
     (let validation_entry =
            \<lparr>he_timestamp = clock e 1, he_hypothesis = hi_hypothesis inp,
             he_validation = validate_hypothesis e (hi_hypothesis inp) (hyp_question inp m) m,
             he_research_question = hyp_question inp m\<rparr>;
          m1 = m\<lparr>hypotheses := hypotheses m @ [validation_entry]\<rparr>
      in m1\<lparr>progress := (progress m1)\<lparr>hypothesis_validated := True\<rparr>\<rparr>)"

definition hyp_process :: "env \<Rightarrow> hyp_input \<Rightarrow> store \<Rightarrow> error + (store \<times> hyp_result)" where
  "hyp_process e inp st =
     (case load_memory st of
        Inl err \<Rightarrow> Inl err
      | Inr m \<Rightarrow>
          (case save_memory (disk_ok e) (hyp_update e inp m) of
             Inl err \<Rightarrow> Inl err
           | Inr st' \<Rightarrow>
               (let v = validate_hypothesis e (hi_hypothesis inp) (hyp_question inp m) m
                in Inr (st',
                     \<lparr>hr_status = ''success'', hr_agent = ''Hypothesis Validator Agent'',
                      hr_hypothesis = hi_hypothesis inp, hr_validation = v,
                      hr_recommendations =
                        generate_improvement_recommendations e (hi_hypothesis inp) v\<rparr>))))"


section \<open>Draft polisher agent\<close>

record draft_input =
  di_draft_text :: string
  di_polish_type :: string
  di_target_audience :: string

record polish_result =
  polished_text :: string
  improvements :: "string list"
  suggestions :: "string list"
  quality_score :: real

record draft_result =
  dr_status :: string
  dr_agent :: string
  dr_original_text :: string
  dr_polished_text :: string
  dr_improvements :: "string list"
  dr_quality_score :: real
  dr_suggestions :: "string list"

text \<open>\<open>DraftPolisherAgent._build_research_context\<close>\<close>

definition build_research_context :: "memory \<Rightarrow> string" where
  "build_research_context m =
     join [newline]
       ((if research_question m \<noteq> [] then [''Research Question: '' @ research_question m]
         else [])
        @ (if literature_reviews m \<noteq> []
           then [''Literature Context: ''
                 @ take 300 (rv_review (last (literature_reviews m))) @ ''...'']
           else [])
        @ (if hypotheses m \<noteq> []
           then [''Research Hypothesis: '' @ he_hypothesis (last (hypotheses m))]
           else []))"

text \<open>The dispatch \<open>polish_prompts.get(polish_type, polish_prompts['comprehensive'])\<close>
  applied to the draft, the audience and the context.\<close>

definition polish_prompt :: "string \<Rightarrow> string \<Rightarrow> string \<Rightarrow> string \<Rightarrow> prompt" where
  "polish_prompt polish_type draft_text target_audience research_context =
     (if polish_type = ''grammar'' then GrammarPolishPrompt draft_text
      else if polish_type = ''structure'' then StructurePolishPrompt research_context draft_text
      else if polish_type = ''clarity'' then ClarityPolishPrompt target_audience draft_text
      else if polish_type = ''citations'' then CitationsPolishPrompt research_context draft_text
      else ComprehensivePolishPrompt target_audience research_context draft_text)"

text \<open>\<open>DraftPolisherAgent._polish_draft\<close>\<close>

definition polish_draft :: "env \<Rightarrow> string \<Rightarrow> string \<Rightarrow> string \<Rightarrow> memory \<Rightarrow> polish_result" where
  "polish_draft e draft_text polish_type target_audience m =
     (let response = generate_response e
            (polish_prompt polish_type draft_text target_audience (build_research_context m))
      in \<lparr>polished_text = extract_polished_text response draft_text,
          improvements = extract_improvements response,
          suggestions = extract_suggestions response,
          quality_score = assess_quality_score draft_text response\<rparr>)"

text \<open>\<open>DraftPolisherAgent.process\<close>\<close>

definition draft_update :: "env \<Rightarrow> draft_input \<Rightarrow> memory \<Rightarrow> memory" where
  "draft_update e inp m =
     (let polished = polish_draft e (di_draft_text inp) (di_polish_type inp)
                       (di_target_audience inp) m;
          draft_entry =
            \<lparr>de_timestamp = clock e 0, original_draft = di_draft_text inp,
             polished_draft = polished_text polished, de_polish_type = di_polish_type inp,
             improvements_made = improvements polished,
             word_count_original = word_count (di_draft_text inp),
             word_count_polished = word_count (polished_text polished)\<rparr>;
          m1 = m\<lparr>drafts := drafts m @ [draft_entry]\<rparr>
      in m1\<lparr>progress := (progress m1)\<lparr>draft_polished := True\<rparr>\<rparr>)"

definition draft_process :: "env \<Rightarrow> draft_input \<Rightarrow> store \<Rightarrow> error + (store \<times> draft_result)" where
  "draft_process e inp st =
     (case load_memory st of
        Inl err \<Rightarrow> Inl err
      | Inr m \<Rightarrow>
          (case save_memory (disk_ok e) (draft_update e inp m) of
             Inl err \<Rightarrow> Inl err
           | Inr st' \<Rightarrow>
               (let polished = polish_draft e (di_draft_text inp) (di_polish_type inp)
                                 (di_target_audience inp) m
                in Inr (st',
                     \<lparr>dr_status = ''success'', dr_agent = ''Draft Polisher Agent'',
                      dr_original_text = di_draft_text inp,
                      dr_polished_text = polished_text polished,
                      dr_improvements = improvements polished,
                      dr_quality_score = quality_score polished,
                      dr_suggestions = suggestions polished\<rparr>))))"

section \<open>Task invocations\<close>

text \<open>One invocation of any of the three agents' \<open>process\<close>, and a sequence of them on
  the backing file.\<close>

datatype task =
    LiteratureReview env lit_input
  | HypothesisValidation env hyp_input
  | DraftPolish env draft_input

fun run_task :: "task \<Rightarrow> store \<Rightarrow> error + store" where
  "run_task (LiteratureReview e inp) st = map_sum id fst (lit_process e inp st)"
| "run_task (HypothesisValidation e inp) st = map_sum id fst (hyp_process e inp st)"
| "run_task (DraftPolish e inp) st = map_sum id fst (draft_process e inp st)"

fun run_tasks :: "task list \<Rightarrow> store \<Rightarrow> error + store" where
  "run_tasks [] st = Inr st"
| "run_tasks (t # ts) st =
     (case run_task t st of Inl err \<Rightarrow> Inl err | Inr st' \<Rightarrow> run_tasks ts st')"

section \<open>The claims' vocabulary\<close>

text \<open>A case-insensitive occurrence of a keyword in a text: some window of the text
  equals the keyword once both are put in lower case.\<close>

fun contains_ci :: "string \<Rightarrow> string \<Rightarrow> bool" where
  "contains_ci p [] = (p = [])"
| "contains_ci p (c # cs) =
     (lower (take (length p) (c # cs)) = lower p \<or> contains_ci p cs)"










text \<open>The progress flag that belongs to a task.\<close>

definition task_flag :: "task \<Rightarrow> progress_flags \<Rightarrow> bool" where
  "task_flag t p =
     (case t of
        LiteratureReview e inp \<Rightarrow> literature_review_completed p
      | HypothesisValidation e inp \<Rightarrow> hypothesis_validated p
      | DraftPolish e inp \<Rightarrow> draft_polished p)"

section \<open>Properties: strings\<close>

lemma prefix_take_eq: "prefix p s \<longleftrightarrow> take (length p) s = p"
proof
  assume "prefix p s"
  then obtain t where "s = p @ t" by (auto simp: prefix_def)
  then show "take (length p) s = p" by simp
next
  assume "take (length p) s = p"
  then have "s = p @ drop (length p) s" by (metis append_take_drop_id)
  then show "prefix p s" by (metis prefixI)
qed

lemma lower_take: "lower (take n s) = take n (lower s)"
  by (simp add: lower_def take_map)

text \<open>The test the code makes, a keyword in the lower-cased text, is the case-insensitive
  occurrence of the keyword in the text.\<close>

lemma str_in_lower_contains_ci:
  "lower p = p \<Longrightarrow> str_in p (lower s) = contains_ci p s"
proof (induction s)
  case Nil
  then show ?case by (simp add: lower_def)
next
  case (Cons c cs)
  have "lower (c # cs) = lower_char c # lower cs" by (simp add: lower_def)
  moreover have "prefix p (lower (c # cs)) \<longleftrightarrow> lower (take (length p) (c # cs)) = lower p"
    using Cons.prems by (simp only: prefix_take_eq lower_take)
  ultimately show ?case using Cons by (metis contains_ci.simps(2) str_in.simps(2))
qed

section \<open>Properties: quality score\<close>

lemma lower_keywords:
  "lower ''excellent'' = ''excellent''" "lower ''high quality'' = ''high quality''"
  "lower ''good'' = ''good''" "lower ''well'' = ''well''"
  "lower ''improvement'' = ''improvement''"
  by code_simp+

text \<open>Claim C2. For every original text and response, the quality score is 9.0 if the
  response contains "excellent" or "high quality" in any mix of cases; otherwise 7.5 if it
  contains "good" or "well"; otherwise 6.0 if it contains "improvement"; otherwise 7.0.
  The first rule that matches decides, so a response with both "good" and "excellent"
  scores 9.0.\<close>

theorem assess_quality_score_priority:
  "assess_quality_score original response =
     (if contains_ci ''excellent'' response \<or> contains_ci ''high quality'' response then 9
      else if contains_ci ''good'' response \<or> contains_ci ''well'' response then 15 / 2
      else if contains_ci ''improvement'' response then 6
      else 7)
   \<and> (contains_ci ''good'' response \<and> contains_ci ''excellent'' response
        \<longrightarrow> assess_quality_score original response = 9)"
  by (simp add: assess_quality_score_def str_in_lower_contains_ci lower_keywords)

theorem assess_quality_score_priority_witness:
  "contains_ci ''good'' ''Good flow. Excellent!''
   \<and> contains_ci ''excellent'' ''Good flow. Excellent!''
   \<and> assess_quality_score ''draft'' ''Good flow. Excellent!'' = 9"
proof -
  have g: "contains_ci ''good'' ''Good flow. Excellent!''" by code_simp
  have e: "contains_ci ''excellent'' ''Good flow. Excellent!''" by code_simp
  from g e assess_quality_score_priority [of "''draft''" "''Good flow. Excellent!''"]
  show ?thesis by blast
qed

section \<open>Properties: loading the memory\<close>


section \<open>Properties: the agents on the memory\<close>

lemma load_memory_Stored: "load_memory (Stored m) = Inr m"
  by simp

lemma lit_process_Inr:
  "lit_process e inp st = Inr (st', r) \<Longrightarrow>
     \<exists>m. load_memory st = Inr m \<and> disk_ok e \<and> st' = Stored (lit_update e inp m)"
  by (auto simp: lit_process_def save_memory_def split: sum.splits if_splits)

lemma hyp_process_Inr:
  "hyp_process e inp st = Inr (st', r) \<Longrightarrow>
     \<exists>m. load_memory st = Inr m \<and> disk_ok e \<and> st' = Stored (hyp_update e inp m)"
  by (auto simp: hyp_process_def save_memory_def Let_def split: sum.splits if_splits)

lemma draft_process_Inr:
  "draft_process e inp st = Inr (st', r) \<Longrightarrow>
     \<exists>m. load_memory st = Inr m \<and> disk_ok e \<and> st' = Stored (draft_update e inp m)"
  by (auto simp: draft_process_def save_memory_def Let_def split: sum.splits if_splits)

lemma lit_process_completes:
  "load_memory st = Inr m \<Longrightarrow> disk_ok e \<Longrightarrow>
     \<exists>r. lit_process e inp st = Inr (Stored (lit_update e inp m), r)"
  by (simp add: lit_process_def save_memory_def)

lemma lit_update_fields:
  "research_question (lit_update e inp m) =
     (if li_research_question inp \<noteq> [] then li_research_question inp else research_question m)"
  "citations (lit_update e inp m) = citations m @ li_citations inp"
  "notes' (lit_update e inp m) = notes' m @ li_notes inp"
  "literature_reviews (lit_update e inp m) =
     literature_reviews m @
       [\<lparr>rv_timestamp = clock e 0,
         rv_review = generate_literature_review e (li_research_question inp) (li_citations inp)
                       (li_notes inp),
         rv_sources_analyzed = length (li_citations inp)\<rparr>]"
  "hypotheses (lit_update e inp m) = hypotheses m"
  "drafts (lit_update e inp m) = drafts m"
  "progress (lit_update e inp m) = (progress m)\<lparr>literature_review_completed := True\<rparr>"
  by (simp_all add: lit_update_def Let_def)

lemma hyp_update_progress:
  "progress (hyp_update e inp m) = (progress m)\<lparr>hypothesis_validated := True\<rparr>"
  by (simp add: hyp_update_def Let_def)

lemma draft_update_progress:
  "progress (draft_update e inp m) = (progress m)\<lparr>draft_polished := True\<rparr>"
  by (simp add: draft_update_def Let_def)

text \<open>Claim C10. A literature-review invocation overwrites the stored research question
  only when the supplied one is not empty, and extends the citations and the notes only
  when the supplied list is not empty; a field whose input is empty is left as it was,
  while the review entry is appended and the progress flag is set as usual. The other
  lists are not touched.\<close>

theorem lit_process_frame:
  assumes "load_memory st = Inr m" and "lit_process e inp st = Inr (st', r)"
  shows "\<exists>m'. load_memory st' = Inr m'
    \<and> (li_research_question inp = [] \<longrightarrow> research_question m' = research_question m)
    \<and> (li_research_question inp \<noteq> [] \<longrightarrow> research_question m' = li_research_question inp)
    \<and> (li_citations inp = [] \<longrightarrow> citations m' = citations m)
    \<and> (li_citations inp \<noteq> [] \<longrightarrow> citations m' = citations m @ li_citations inp)
    \<and> (li_notes inp = [] \<longrightarrow> notes' m' = notes' m)
    \<and> (li_notes inp \<noteq> [] \<longrightarrow> notes' m' = notes' m @ li_notes inp)
    \<and> literature_reviews m' =
        literature_reviews m @
          [\<lparr>rv_timestamp = clock e 0, rv_review = lr_review r,
            rv_sources_analyzed = length (li_citations inp)\<rparr>]
    \<and> literature_review_completed (progress m')
    \<and> hypotheses m' = hypotheses m \<and> drafts m' = drafts m"
proof -
  from assms(2) obtain m0 where m0: "load_memory st = Inr m0" "st' = Stored (lit_update e inp m0)"
    using lit_process_Inr by blast
  with assms(1) have st': "st' = Stored (lit_update e inp m)" by simp
  have r: "lr_review r = generate_literature_review e (li_research_question inp)
             (li_citations inp) (li_notes inp)"
    using assms by (auto simp: lit_process_def save_memory_def split: sum.splits if_splits)
  show ?thesis
    unfolding st' load_memory_Stored
    by (rule exI [of _ "lit_update e inp m"]) (simp add: lit_update_fields r)
qed

theorem lit_process_frame_witness:
  "\<exists>st' r m'.
     lit_process \<lparr>llm = \<lambda>p. Text ''A review.'', clock = \<lambda>n. ''2024-05-01T10:00:00'', disk_ok = True\<rparr>
       \<lparr>li_research_question = [], li_citations = [], li_notes = [''a note'']\<rparr>
       (Stored (default_memory\<lparr>research_question := ''Q'', citations := [''A'']\<rparr>)) = Inr (st', r)
     \<and> load_memory st' = Inr m'
     \<and> research_question m' = ''Q'' \<and> citations m' = [''A''] \<and> notes' m' = [''a note'']
     \<and> length (literature_reviews m') = 1"
proof -
  let ?e = "\<lparr>llm = \<lambda>p. Text ''A review.'', clock = \<lambda>n. ''2024-05-01T10:00:00'', disk_ok = True\<rparr>"
  let ?i = "\<lparr>li_research_question = [], li_citations = [], li_notes = [''a note'']\<rparr>"
  let ?m = "default_memory\<lparr>research_question := ''Q'', citations := [''A'']\<rparr>"
  have l: "load_memory (Stored ?m) = Inr ?m" by simp
  obtain r where p: "lit_process ?e ?i (Stored ?m) = Inr (Stored (lit_update ?e ?i ?m), r)"
    using lit_process_completes [OF l, of ?e ?i] by auto
  from lit_process_frame [OF l p] obtain m' where
    "load_memory (Stored (lit_update ?e ?i ?m)) = Inr m'"
    "research_question m' = research_question ?m" "citations m' = citations ?m"
    "notes' m' = notes' ?m @ [''a note'']"
    "literature_reviews m' = literature_reviews ?m @
          [\<lparr>rv_timestamp = clock ?e 0, rv_review = lr_review r,
            rv_sources_analyzed = length (li_citations ?i)\<rparr>]"
    by auto
  then have "load_memory (Stored (lit_update ?e ?i ?m)) = Inr m'
     \<and> research_question m' = ''Q'' \<and> citations m' = [''A''] \<and> notes' m' = [''a note'']
     \<and> length (literature_reviews m') = 1"
    by (simp add: default_memory_def)
  with p show ?thesis by blast
qed

lemma lit_run_citations:
  "load_memory st = Inr m \<Longrightarrow> \<forall>c \<in> set calls. disk_ok (fst c) \<Longrightarrow>
     \<exists>st' m'. lit_run calls st = Inr st' \<and> load_memory st' = Inr m'
        \<and> citations m' = citations m @ concat (map (\<lambda>c. li_citations (snd c)) calls)"
proof (induction calls arbitrary: st m)
  case Nil
  then show ?case by simp
next
  case (Cons c calls)
  obtain e inp where c: "c = (e, inp)" by (cases c)
  from Cons.prems c have ok: "disk_ok e" by simp
  from lit_process_completes [OF Cons.prems(1) ok, of inp]
  obtain r where p: "lit_process e inp st = Inr (Stored (lit_update e inp m), r)" by blast
  have "load_memory (Stored (lit_update e inp m)) = Inr (lit_update e inp m)" by simp
  moreover have "\<forall>c \<in> set calls. disk_ok (fst c)" using Cons.prems(2) by simp
  ultimately obtain st' m' where
    "lit_run calls (Stored (lit_update e inp m)) = Inr st'" "load_memory st' = Inr m'"
    "citations m' = citations (lit_update e inp m) @ concat (map (\<lambda>c. li_citations (snd c)) calls)"
    using Cons.IH by blast
  then show ?case using p c by (simp add: lit_update_fields)
qed

text \<open>Claim C6. For any number of consecutive literature-review invocations from any
  readable memory state, each of whose writes succeeds, the run completes and the stored
  citations afterwards are the stored citations before followed by the input lists in the
  order of the invocations; their number grows by the sum of the input lengths. (An empty
  input list adds nothing, so the claim's restriction to non-empty lists is not needed.)\<close>

theorem lit_run_appends_citations:
  assumes "load_memory st = Inr m" and "\<forall>c \<in> set calls. disk_ok (fst c)"
  shows "\<exists>st' m'. lit_run calls st = Inr st' \<and> load_memory st' = Inr m'
     \<and> citations m' = citations m @ concat (map (\<lambda>c. li_citations (snd c)) calls)
     \<and> length (citations m') =
         length (citations m) + sum_list (map (\<lambda>c. length (li_citations (snd c))) calls)"
proof -
  from lit_run_citations [OF assms] obtain st' m' where
    h: "lit_run calls st = Inr st'" "load_memory st' = Inr m'"
       "citations m' = citations m @ concat (map (\<lambda>c. li_citations (snd c)) calls)"
    by blast
  have "length (concat (map (\<lambda>c. li_citations (snd c)) calls))
          = sum_list (map (\<lambda>c. length (li_citations (snd c))) calls)"
    by (simp add: length_concat comp_def)
  with h show ?thesis by auto
qed

theorem lit_run_appends_citations_witness:
  "\<exists>st' m'.
     lit_run
       [(\<lparr>llm = \<lambda>p. Text ''Review one.'', clock = \<lambda>n. ''2024-05-01T10:00:00'', disk_ok = True\<rparr>,
         \<lparr>li_research_question = ''X'', li_citations = [''A'', ''B''], li_notes = []\<rparr>),
        (\<lparr>llm = \<lambda>p. Raised ''quota'', clock = \<lambda>n. ''2024-05-01T11:00:00'', disk_ok = True\<rparr>,
         \<lparr>li_research_question = [], li_citations = [''C''], li_notes = []\<rparr>)]
       (Stored (default_memory\<lparr>citations := [''Z'']\<rparr>)) = Inr st'
     \<and> load_memory st' = Inr m'
     \<and> citations m' = [''Z'', ''A'', ''B'', ''C'']
     \<and> length (citations m') = 4"
proof -
  let ?calls = "[(\<lparr>llm = \<lambda>p. Text ''Review one.'', clock = \<lambda>n. ''2024-05-01T10:00:00'', disk_ok = True\<rparr>,
         \<lparr>li_research_question = ''X'', li_citations = [''A'', ''B''], li_notes = []\<rparr>),
        (\<lparr>llm = \<lambda>p. Raised ''quota'', clock = \<lambda>n. ''2024-05-01T11:00:00'', disk_ok = True\<rparr>,
         \<lparr>li_research_question = [], li_citations = [''C''], li_notes = []\<rparr>)]"
  let ?m = "default_memory\<lparr>citations := [''Z'']\<rparr>"
  have l: "load_memory (Stored ?m) = Inr ?m" by simp
  have ok: "\<forall>c \<in> set ?calls. disk_ok (fst c)" by simp
  from lit_run_appends_citations [OF l ok] obtain st' m' where
    h: "lit_run ?calls (Stored ?m) = Inr st'" "load_memory st' = Inr m'"
       "citations m' = citations ?m @ concat (map (\<lambda>c. li_citations (snd c)) ?calls)"
    by blast
  from h(3) have "citations m' = [''Z'', ''A'', ''B'', ''C'']" by simp
  moreover from this have "length (citations m') = 4" by simp
  ultimately show ?thesis using h(1,2) by blast
qed

lemma run_task_Inr:
  assumes "run_task t st = Inr st'"
  shows "\<exists>m m'. load_memory st = Inr m \<and> st' = Stored m' \<and> task_flag t (progress m')
       \<and> (literature_review_completed (progress m) \<longrightarrow> literature_review_completed (progress m'))
       \<and> (hypothesis_validated (progress m) \<longrightarrow> hypothesis_validated (progress m'))
       \<and> (draft_polished (progress m) \<longrightarrow> draft_polished (progress m'))"
proof (cases t)
  case (LiteratureReview e inp)
  with \<open>run_task t st = Inr st'\<close> obtain r where "lit_process e inp st = Inr (st', r)"
    by (cases "lit_process e inp st") auto
  from lit_process_Inr [OF this] show ?thesis
    using LiteratureReview by (auto simp: task_flag_def lit_update_fields)
next
  case (HypothesisValidation e inp)
  with \<open>run_task t st = Inr st'\<close> obtain r where "hyp_process e inp st = Inr (st', r)"
    by (cases "hyp_process e inp st") auto
  from hyp_process_Inr [OF this] show ?thesis
    using HypothesisValidation by (auto simp: task_flag_def hyp_update_progress)
next
  case (DraftPolish e inp)
  with \<open>run_task t st = Inr st'\<close> obtain r where "draft_process e inp st = Inr (st', r)"
    by (cases "draft_process e inp st") auto
  from draft_process_Inr [OF this] show ?thesis
    using DraftPolish by (auto simp: task_flag_def draft_update_progress)
qed

lemma run_tasks_monotonic:
  "load_memory st = Inr m \<Longrightarrow> run_tasks ts st = Inr st' \<Longrightarrow>
     \<exists>m'. load_memory st' = Inr m'
       \<and> (literature_review_completed (progress m) \<longrightarrow> literature_review_completed (progress m'))
       \<and> (hypothesis_validated (progress m) \<longrightarrow> hypothesis_validated (progress m'))
       \<and> (draft_polished (progress m) \<longrightarrow> draft_polished (progress m'))"
proof (induction ts arbitrary: st m)
  case Nil
  then show ?case by simp
next
  case (Cons t ts)
  from Cons.prems(2) obtain st1 where s1: "run_task t st = Inr st1" "run_tasks ts st1 = Inr st'"
    by (auto split: sum.splits)
  from run_task_Inr [OF s1(1)] Cons.prems(1) obtain m1 where
    m1: "st1 = Stored m1"
      "literature_review_completed (progress m) \<longrightarrow> literature_review_completed (progress m1)"
      "hypothesis_validated (progress m) \<longrightarrow> hypothesis_validated (progress m1)"
      "draft_polished (progress m) \<longrightarrow> draft_polished (progress m1)"
    by auto
  have "load_memory st1 = Inr m1" using m1(1) by simp
  from Cons.IH [OF this s1(2)] m1 show ?case by blast
qed

text \<open>Claim C7. After an invocation of an agent's \<open>process\<close> completes, the flag of
  that agent is true in the saved memory; and no sequence of invocations of the three
  agents, in any order, turns a flag that is true in the memory into false.\<close>

theorem progress_flags_monotonic:
  "(run_task t st = Inr st1 \<longrightarrow>
      (\<exists>m1. load_memory st1 = Inr m1 \<and> task_flag t (progress m1)))
   \<and> (load_memory st = Inr m \<and> run_tasks ts st = Inr st2 \<longrightarrow>
      (\<exists>m2. load_memory st2 = Inr m2
        \<and> (literature_review_completed (progress m) \<longrightarrow> literature_review_completed (progress m2))
        \<and> (hypothesis_validated (progress m) \<longrightarrow> hypothesis_validated (progress m2))
        \<and> (draft_polished (progress m) \<longrightarrow> draft_polished (progress m2))))"
proof (intro conjI impI)
  assume "run_task t st = Inr st1"
  from run_task_Inr [OF this] show "\<exists>m1. load_memory st1 = Inr m1 \<and> task_flag t (progress m1)"
    by auto
next
  assume "load_memory st = Inr m \<and> run_tasks ts st = Inr st2"
  then show "\<exists>m2. load_memory st2 = Inr m2
        \<and> (literature_review_completed (progress m) \<longrightarrow> literature_review_completed (progress m2))
        \<and> (hypothesis_validated (progress m) \<longrightarrow> hypothesis_validated (progress m2))
        \<and> (draft_polished (progress m) \<longrightarrow> draft_polished (progress m2))"
    using run_tasks_monotonic by blast
qed

theorem progress_flags_monotonic_witness:
  "\<exists>st1 m1 st2 m2.
     run_task
       (DraftPolish \<lparr>llm = \<lambda>p. Text ''Fine.'', clock = \<lambda>n. ''2024-05-01T10:00:00'', disk_ok = True\<rparr>
          \<lparr>di_draft_text = ''A draft.'', di_polish_type = ''grammar'', di_target_audience = ''academic''\<rparr>)
       Absent = Inr st1
     \<and> load_memory st1 = Inr m1 \<and> draft_polished (progress m1)
     \<and> run_tasks
         [LiteratureReview \<lparr>llm = \<lambda>p. Text ''Review.'', clock = \<lambda>n. ''2024-05-01T11:00:00'', disk_ok = True\<rparr>
            \<lparr>li_research_question = ''X'', li_citations = [''A''], li_notes = []\<rparr>]
         st1 = Inr st2
     \<and> load_memory st2 = Inr m2 \<and> draft_polished (progress m2)"
proof -
  let ?e1 = "\<lparr>llm = \<lambda>p. Text ''Fine.'', clock = \<lambda>n. ''2024-05-01T10:00:00'', disk_ok = True\<rparr>"
  let ?i1 = "\<lparr>di_draft_text = ''A draft.'', di_polish_type = ''grammar'', di_target_audience = ''academic''\<rparr>"
  let ?e2 = "\<lparr>llm = \<lambda>p. Text ''Review.'', clock = \<lambda>n. ''2024-05-01T11:00:00'', disk_ok = True\<rparr>"
  let ?i2 = "\<lparr>li_research_question = ''X'', li_citations = [''A''], li_notes = []\<rparr>"
  let ?st1 = "Stored (draft_update ?e1 ?i1 default_memory)"
  let ?st2 = "Stored (lit_update ?e2 ?i2 (draft_update ?e1 ?i1 default_memory))"
  have r1: "run_task (DraftPolish ?e1 ?i1) Absent = Inr ?st1"
    by (simp add: draft_process_def save_memory_def Let_def)
  have r2: "run_tasks [LiteratureReview ?e2 ?i2] ?st1 = Inr ?st2"
    by (simp add: lit_process_def save_memory_def)
  from r1 progress_flags_monotonic [of "DraftPolish ?e1 ?i1" Absent ?st1]
  obtain m1 where m1: "load_memory ?st1 = Inr m1" "task_flag (DraftPolish ?e1 ?i1) (progress m1)"
    by blast
  then have d1: "draft_polished (progress m1)" by (simp add: task_flag_def)
  from m1(1) r2 progress_flags_monotonic [of _ ?st1 _ m1 "[LiteratureReview ?e2 ?i2]" ?st2]
  obtain m2 where m2: "load_memory ?st2 = Inr m2" "draft_polished (progress m1) \<longrightarrow> draft_polished (progress m2)"
    by blast
  with d1 have "draft_polished (progress m2)" by blast
  with r1 r2 m1(1) d1 m2(1) show ?thesis by blast
qed

lemma generate_response_Raised:
  "llm e p = Raised msg \<Longrightarrow> generate_response e p = ''Error generating response: '' @ msg"
  by (simp add: generate_response_def)

text \<open>Claim C9. When the model call raises, \<open>generate_response\<close> returns the text
  "Error generating response: " followed by the exception's text instead of raising; each
  agent takes that text as the response, runs its extractors over it and returns a
  result with status "success", provided the memory can be read and written.\<close>

theorem generation_failure_not_fatal:
  assumes fails: "\<forall>p. llm e p = Raised msg"
    and readable: "load_memory st = Inr m"
    and writable: "disk_ok e"
  shows "generate_response e p = ''Error generating response: '' @ msg
    \<and> (\<exists>st' r. lit_process e li st = Inr (st', r)
          \<and> lr_status r = ''success''
          \<and> lr_review r = ''Error generating response: '' @ msg
          \<and> lr_recommendations r = parse_recommendations (''Error generating response: '' @ msg))
    \<and> (\<exists>st' r. hyp_process e hi st = Inr (st', r)
          \<and> hr_status r = ''success''
          \<and> detailed_analysis (hr_validation r) = ''Error generating response: '' @ msg
          \<and> overall_score (hr_validation r)
              = calculate_overall_score (''Error generating response: '' @ msg)
          \<and> hr_recommendations r = parse_recommendations (''Error generating response: '' @ msg))
    \<and> (\<exists>st' r. draft_process e di st = Inr (st', r)
          \<and> dr_status r = ''success''
          \<and> dr_polished_text r
              = extract_polished_text (''Error generating response: '' @ msg) (di_draft_text di)
          \<and> dr_improvements r = extract_improvements (''Error generating response: '' @ msg)
          \<and> dr_suggestions r = extract_suggestions (''Error generating response: '' @ msg)
          \<and> dr_quality_score r
              = assess_quality_score (di_draft_text di) (''Error generating response: '' @ msg))"
proof -
  have g: "generate_response e q = ''Error generating response: '' @ msg" for q
    using fails by (simp add: generate_response_Raised)
  have lit: "\<exists>st' r. lit_process e li st = Inr (st', r)
          \<and> lr_status r = ''success''
          \<and> lr_review r = ''Error generating response: '' @ msg
          \<and> lr_recommendations r = parse_recommendations (''Error generating response: '' @ msg)"
    using readable writable
    by (simp add: lit_process_def save_memory_def generate_literature_review_def
        generate_recommendations_def g)
  have hyp: "\<exists>st' r. hyp_process e hi st = Inr (st', r)
          \<and> hr_status r = ''success''
          \<and> detailed_analysis (hr_validation r) = ''Error generating response: '' @ msg
          \<and> overall_score (hr_validation r)
              = calculate_overall_score (''Error generating response: '' @ msg)
          \<and> hr_recommendations r = parse_recommendations (''Error generating response: '' @ msg)"
    using readable writable
    by (simp add: hyp_process_def save_memory_def validate_hypothesis_def
        generate_improvement_recommendations_def Let_def g)
  have draft: "\<exists>st' r. draft_process e di st = Inr (st', r)
          \<and> dr_status r = ''success''
          \<and> dr_polished_text r
              = extract_polished_text (''Error generating response: '' @ msg) (di_draft_text di)
          \<and> dr_improvements r = extract_improvements (''Error generating response: '' @ msg)
          \<and> dr_suggestions r = extract_suggestions (''Error generating response: '' @ msg)
          \<and> dr_quality_score r
              = assess_quality_score (di_draft_text di) (''Error generating response: '' @ msg)"
    using readable writable
    by (simp add: draft_process_def save_memory_def polish_draft_def Let_def g)
  from g lit hyp draft show ?thesis by blast
qed

theorem generation_failure_not_fatal_witness:
  "(\<forall>p. llm \<lparr>llm = \<lambda>p. Raised ''503 unavailable'', clock = \<lambda>n. ''2024-05-01T10:00:00'', disk_ok = True\<rparr> p
          = Raised ''503 unavailable'')
   \<and> load_memory Absent = Inr default_memory
   \<and> disk_ok \<lparr>llm = \<lambda>p. Raised ''503 unavailable'', clock = \<lambda>n. ''2024-05-01T10:00:00'', disk_ok = True\<rparr>
   \<and> (\<exists>st' r.
        draft_process \<lparr>llm = \<lambda>p. Raised ''503 unavailable'', clock = \<lambda>n. ''2024-05-01T10:00:00'', disk_ok = True\<rparr>
          \<lparr>di_draft_text = ''A draft.'', di_polish_type = ''grammar'', di_target_audience = ''academic''\<rparr>
          Absent = Inr (st', r)
        \<and> dr_status r = ''success''
        \<and> dr_polished_text r = ''A draft.'' \<and> dr_improvements r = []
        \<and> dr_suggestions r = [] \<and> dr_quality_score r = 7)"
proof -
  let ?e = "\<lparr>llm = \<lambda>p. Raised ''503 unavailable'', clock = \<lambda>n. ''2024-05-01T10:00:00'', disk_ok = True\<rparr>"
  let ?di = "\<lparr>di_draft_text = ''A draft.'', di_polish_type = ''grammar'', di_target_audience = ''academic''\<rparr>"
  let ?err = "''Error generating response: '' @ ''503 unavailable''"
  have f: "\<forall>p. llm ?e p = Raised ''503 unavailable''" by simp
  have l: "load_memory Absent = Inr default_memory" by simp
  have w: "disk_ok ?e" by simp
  have x1: "extract_polished_text ?err ''A draft.'' = ''A draft.''" by code_simp
  have x2: "extract_improvements ?err = []" by code_simp
  have x3: "extract_suggestions ?err = []" by code_simp
  have x4: "assess_quality_score ''A draft.'' ?err = 7" by code_simp
  from generation_failure_not_fatal [OF f l w, of "LiteratureReviewPrompt [] [] []"
      "\<lparr>li_research_question = [], li_citations = [], li_notes = []\<rparr>"
      "\<lparr>hi_hypothesis = ''H'', hi_research_question = []\<rparr>" ?di]
  obtain st' r where "draft_process ?e ?di Absent = Inr (st', r)" "dr_status r = ''success''"
    "dr_polished_text r = extract_polished_text ?err (di_draft_text ?di)"
    "dr_improvements r = extract_improvements ?err"
    "dr_suggestions r = extract_suggestions ?err"
    "dr_quality_score r = assess_quality_score (di_draft_text ?di) ?err"
    by blast
  with x1 x2 x3 x4 have "draft_process ?e ?di Absent = Inr (st', r) \<and> dr_status r = ''success''
        \<and> dr_polished_text r = ''A draft.'' \<and> dr_improvements r = []
        \<and> dr_suggestions r = [] \<and> dr_quality_score r = 7"
    by simp
  with f l w show ?thesis by blast
qed

section \<open>Properties: case folding\<close>









section \<open>Properties: the polished text\<close>






section \<open>Properties: list extraction\<close>



















section \<open>Properties: score extraction\<close>





















end
